theory Spec2Isabelle
  imports Main "HOL-Library.AList"
begin

section \<open>JavaScript values, errors and requests\<close>

text \<open>
  The repository is a TypeScript client of an app-store catalog. Its functions are
  \<open>async\<close>: each one is modelled as a function that returns the list of requests it
  handed to \<open>doRequest\<close>, in order, together with its outcome, \<open>Inl\<close> for a thrown
  error and \<open>Inr\<close> for the resolved value. Strings are ASCII strings.

  The modules \<open>common.js\<close> and \<open>schemas.js\<close> and the libraries (cheerio, the XML
  parser, \<open>JSON.parse\<close>) are collaborators of the code modelled here: every function takes
  the ones it calls as parameters.
\<close>

text \<open>The value of \<open>id || appId\<close>: a number, a string or \<open>undefined\<close>.\<close>

datatype js_value = Undefined | NumV int | StrV string

text \<open>
  Every \<open>throw\<close> of the source is a constructor; \<open>Thrown\<close> is an error raised inside a
  collaborator (the transport, a parser, \<open>lookup\<close>).
\<close>

datatype error =
    TermIsRequired
  | IdIsRequired
  | AppNotFound404
  | AppNotFound js_value
  | SearchValidationFailed string
  | SuggestValidationFailed string
  | Thrown string

text \<open>
  A JavaScript number, as far as this code produces one: an integer or \<open>NaN\<close>. Integers
  are exact; the rounding of doubles beyond \<open>2^53\<close> is not modelled.
\<close>

datatype number = Num int | NaN

text \<open>Truthiness of an optional string and of an optional number.\<close>

fun truthy_str :: "string option \<Rightarrow> bool" where
  "truthy_str None = False"
| "truthy_str (Some s) = (s \<noteq> [])"

fun truthy_num :: "int option \<Rightarrow> bool" where
  "truthy_num None = False"
| "truthy_num (Some n) = (n \<noteq> 0)"

fun truthy_bool :: "bool option \<Rightarrow> bool" where
  "truthy_bool None = False"
| "truthy_bool (Some b) = b"

text \<open>
  The pass-through transport configuration. Only \<open>headers\<close> is read by the code;
  \<open>transport\<close> stands for every other key.
\<close>

record requestOptions =
  headers :: "(string \<times> string) list option"
  transport :: string

text \<open>
  The query of \<open>https://itunes.apple.com/search\<close>, kept structured instead of
  serialised (\<open>p_limit\<close> is the number that \<open>String(limit)\<close> renders; \<open>p_lang\<close> is set
  only when \<open>lang\<close> is truthy).
\<close>

record search_params =
  p_term :: string
  p_country :: string
  p_media :: string
  p_entity :: string
  p_limit :: int
  p_lang :: "string option"

text \<open>
  The four URLs the code builds:
  \<^item> \<open>SearchUrl params\<close>: \<open>https://itunes.apple.com/search?params\<close>;
  \<^item> \<open>CustomerReviewsUrl country id\<close>:
    \<open>https://itunes.apple.com/country/customer-reviews/idN?displayable-kind=11\<close>;
  \<^item> \<open>AppPageUrl country id\<close>: \<open>https://apps.apple.com/country/app/idN\<close>;
  \<^item> \<open>HintsUrl term\<close>: the search-hints URL with the escaped term.
\<close>

datatype url =
    SearchUrl search_params
  | CustomerReviewsUrl string int
  | AppPageUrl string int
  | HintsUrl string

type_synonym request = "url \<times> requestOptions option"

type_synonym 'a outcome = "request list \<times> (error + 'a)"

section \<open>search\<close>

text \<open>\<open>Array.prototype.slice(start, end)\<close> with integer arguments.\<close>

definition slice :: "'a list \<Rightarrow> int \<Rightarrow> int \<Rightarrow> 'a list" where
  "slice xs start fin =
     (let len = int (length xs);
          k = (if start < 0 then max (len + start) 0 else min start len);
          final = (if fin < 0 then max (len + fin) 0 else min fin len)
      in take (nat (final - k)) (drop (nat k) xs))"

text \<open>
  An entry of the validated search response. The code reads \<open>kind\<close> and \<open>trackId\<close>;
  the other fields live in the record's extension and reach \<open>cleanApp\<close> untouched.
\<close>

record ITunesAppResponse =
  kind :: "string option"
  trackId :: "int option"

record 'r iTunesLookupResponse =
  results :: "'r ITunesAppResponse_scheme list"

record SearchOptions =
  s_term :: "string option"
  s_num :: "int option"
  s_page :: "int option"
  s_country :: "string option"
  s_lang :: "string option"
  s_idsOnly :: "bool option"
  s_requestOptions :: "requestOptions option"

datatype 'a search_result = Apps "'a list" | Ids "int list"

text \<open>
  \<open>search\<close> of \<open>search.ts\<close>. Parameters: \<open>doRequest\<close> and \<open>cleanApp\<close> of \<open>common.js\<close>,
  \<open>JSON.parse\<close>, and \<open>iTunesLookupResponseSchema.safeParse\<close> (\<open>Inl\<close> the validation
  error's message).
\<close>

definition search ::
  "(request \<Rightarrow> error + string) \<Rightarrow> (string \<Rightarrow> error + 'j) \<Rightarrow>
   ('j \<Rightarrow> string + 'r iTunesLookupResponse) \<Rightarrow> ('r ITunesAppResponse_scheme \<Rightarrow> 'a) \<Rightarrow>
   SearchOptions \<Rightarrow> 'a search_result outcome" where
  "search doRequest JSON_parse safeParse cleanApp options =
     (let num = (case s_num options of None \<Rightarrow> 50 | Some n \<Rightarrow> n);
          page = (case s_page options of None \<Rightarrow> 1 | Some p \<Rightarrow> p);
          country = (case s_country options of None \<Rightarrow> ''us'' | Some c \<Rightarrow> c);
          lang = s_lang options
      in if \<not> truthy_str (s_term options) then ([], Inl TermIsRequired)
         else
           let limit = page * num;
               params = \<lparr>p_term = the (s_term options), p_country = country,
                         p_media = ''software'', p_entity = ''software'',
                         p_limit = limit, p_lang = None\<rparr>;
               params = (if truthy_str lang then params\<lparr>p_lang := lang\<rparr> else params);
               req = (SearchUrl params, s_requestOptions options)
           in case doRequest req of
                Inl e \<Rightarrow> ([req], Inl e)
              | Inr body \<Rightarrow>
                  (case JSON_parse body of
                     Inl e \<Rightarrow> ([req], Inl e)
                   | Inr parsedData \<Rightarrow>
                       (case safeParse parsedData of
                          Inl msg \<Rightarrow> ([req], Inl (SearchValidationFailed msg))
                        | Inr response \<Rightarrow>
                            let allResults =
                                  filter (\<lambda>app. kind app = Some ''software'') (results response);
                                start = (page - 1) * num;
                                fin = start + num;
                                paginatedResults = slice allResults start fin
                            in if truthy_bool (s_idsOnly options)
                               then ([req], Inr (Ids (map the (filter (\<lambda>i. i \<noteq> None)
                                                         (map trackId paginatedResults)))))
                               else ([req], Inr (Apps (map cleanApp paginatedResults))))))"

text \<open>The request \<open>search\<close> builds from its options.\<close>

definition search_request :: "SearchOptions \<Rightarrow> int \<Rightarrow> request" where
  "search_request options limit =
     (SearchUrl \<lparr>p_term = the (s_term options),
                 p_country = (case s_country options of None \<Rightarrow> ''us'' | Some c \<Rightarrow> c),
                 p_media = ''software'', p_entity = ''software'', p_limit = limit,
                 p_lang = (if truthy_str (s_lang options) then s_lang options else None)\<rparr>,
      s_requestOptions options)"

text \<open>The page window over the software-only entries, in upstream order.\<close>

definition page_window ::
  "'r ITunesAppResponse_scheme list \<Rightarrow> nat \<Rightarrow> nat \<Rightarrow> 'r ITunesAppResponse_scheme list" where
  "page_window rs p n =
     take n (drop ((p - 1) * n) (filter (\<lambda>app. kind app = Some ''software'') rs))"

fun result_length :: "'a search_result \<Rightarrow> nat" where
  "result_length (Apps xs) = length xs"
| "result_length (Ids xs) = length xs"

section \<open>Strings\<close>

text \<open>
  The string operations of JavaScript the code uses, on ASCII strings: white space is the
  ASCII part of the \<open>\s\<close> class, a digit is \<open>[0-9]\<close>.
\<close>

definition isWhiteSpace :: "char \<Rightarrow> bool" where
  "isWhiteSpace c =
     (c \<in> set [CHR '' '', CHR 0x09, CHR 0x0A, CHR 0x0B, CHR 0x0C, CHR 0x0D])"

definition isDigit :: "char \<Rightarrow> bool" where
  "isDigit c = (c \<in> set ''0123456789'')"

text \<open>\<open>String.prototype.trim\<close>.\<close>

definition trim :: "string \<Rightarrow> string" where
  "trim s = rev (dropWhile isWhiteSpace (rev (dropWhile isWhiteSpace s)))"

text \<open>The number a string of decimal digits denotes.\<close>

definition decimal :: "string \<Rightarrow> int" where
  "decimal ds = foldl (\<lambda>acc c. 10 * acc + (int (of_char c) - 48)) 0 ds"

text \<open>
  \<open>parseInt(s, 10)\<close>: leading white space is skipped, a sign is read, then the longest
  run of digits; \<open>NaN\<close> when that run is empty.
\<close>

definition parseInt :: "string \<Rightarrow> number" where
  "parseInt s =
     (let t = dropWhile isWhiteSpace s;
          sign = (case t of [] \<Rightarrow> 1 | c # cs \<Rightarrow> if c = CHR ''-'' then - 1 else (1::int));
          r = (case t of [] \<Rightarrow> []
               | c # cs \<Rightarrow> if c = CHR ''-'' \<or> c = CHR ''+'' then cs else t);
          ds = takeWhile isDigit r
      in if ds = [] then NaN else Num (sign * decimal ds))"

text \<open>\<open>s.match(/\d+/)\<close>: element 0 of the match, the first maximal run of digits.\<close>

definition match_digits :: "string \<Rightarrow> string option" where
  "match_digits s =
     (let r = dropWhile (\<lambda>c. \<not> isDigit c) s
      in if r = [] then None else Some (takeWhile isDigit r))"

text \<open>\<open>s.includes(sub)\<close>.\<close>

fun includes_str :: "string \<Rightarrow> string \<Rightarrow> bool" where
  "includes_str [] sub = (sub = [])"
| "includes_str (c # cs) sub = (take (length sub) (c # cs) = sub \<or> includes_str cs sub)"

section \<open>The DOM-query library\<close>

text \<open>
  A document loaded by cheerio, seen through the four queries the code makes; \<open>'e\<close> is
  the type of elements.
  \<^item> \<open>query d s\<close> is \<open>$(s)\<close>: the elements matching selector \<open>s\<close>, in document order;
  \<^item> \<open>find_in d el s\<close> is \<open>$(el).find(s)\<close>;
  \<^item> \<open>text_of d el\<close> is \<open>$(el).text()\<close>;
  \<^item> \<open>attr_of d el a\<close> is \<open>$(el).attr(a)\<close>, \<open>None\<close> for \<open>undefined\<close>.
  \<open>cheerio.load\<close> is a parameter \<open>load\<close> of type \<open>string \<Rightarrow> error + 'e dom\<close>.
\<close>

record 'e dom =
  query :: "string \<Rightarrow> 'e list"
  find_in :: "'e \<Rightarrow> string \<Rightarrow> 'e list"
  text_of :: "'e \<Rightarrow> string"
  attr_of :: "'e \<Rightarrow> string \<Rightarrow> string option"

text \<open>\<open>.text()\<close> of a selection: the texts of its elements, concatenated.\<close>

definition sel_text :: "'e dom \<Rightarrow> 'e list \<Rightarrow> string" where
  "sel_text d els = concat (map (text_of d) els)"

text \<open>\<open>.attr(a)\<close> of a selection: the attribute of its first element.\<close>

definition sel_attr :: "'e dom \<Rightarrow> 'e list \<Rightarrow> string \<Rightarrow> string option" where
  "sel_attr d els a = (case els of [] \<Rightarrow> None | el # _ \<Rightarrow> attr_of d el a)"

section \<open>ratings\<close>

type_synonym RatingHistogram = "int \<rightharpoonup> number"

record Ratings =
  rt_ratings :: number
  rt_histogram :: RatingHistogram

record RatingsOptions =
  r_id :: "int option"
  r_country :: "string option"
  r_requestOptions :: "requestOptions option"

text \<open>
  The \<open>reduce\<close> of \<open>parseRatings\<close>: \<open>acc[5 - index] = ratingsForStar\<close> for every element
  of the array, with its index.
\<close>

fun reduce_histogram :: "RatingHistogram \<Rightarrow> nat \<Rightarrow> number list \<Rightarrow> RatingHistogram" where
  "reduce_histogram acc index [] = acc"
| "reduce_histogram acc index (ratingsForStar # rest) =
     reduce_histogram (acc(5 - int index \<mapsto> ratingsForStar)) (Suc index) rest"

text \<open>The initial value of the \<open>reduce\<close>: \<open>{1: 0, 2: 0, 3: 0, 4: 0, 5: 0}\<close>.\<close>

definition zero_histogram :: RatingHistogram where
  "zero_histogram = [1 \<mapsto> Num 0, 2 \<mapsto> Num 0, 3 \<mapsto> Num 0, 4 \<mapsto> Num 0, 5 \<mapsto> Num 0]"

definition parseRatings :: "(string \<Rightarrow> error + 'e dom) \<Rightarrow> string \<Rightarrow> error + Ratings" where
  "parseRatings load html =
     (case load html of
        Inl e \<Rightarrow> Inl e
      | Inr d \<Rightarrow>
          let ratingsMatch = match_digits (sel_text d (query d ''.rating-count''));
              totalRatings = (case ratingsMatch of
                                None \<Rightarrow> Num 0
                              | Some m \<Rightarrow> if m \<noteq> [] then parseInt m else Num 0);
              ratingsByStar = map (\<lambda>el. parseInt (text_of d el)) (query d ''.vote .total'');
              histogram = reduce_histogram zero_histogram 0 ratingsByStar
          in Inr \<lparr>rt_ratings = totalRatings, rt_histogram = histogram\<rparr>)"

text \<open>
  Object spread \<open>{...obj, ...src}\<close> on string-keyed objects: a key of \<open>src\<close> replaces
  the value of the same key of \<open>obj\<close>, a new key is appended.
\<close>

definition spread :: "(string \<times> string) list \<Rightarrow> (string \<times> string) list \<Rightarrow> (string \<times> string) list" where
  "spread obj src = foldl (\<lambda>acc kv. AList.update (fst kv) (snd kv) acc) obj src"

text \<open>
  \<open>ratings\<close> of \<open>ratings.ts\<close>. Parameters: \<open>doRequest\<close> and \<open>storeId\<close> of \<open>common.js\<close>
  (\<open>storeId\<close> gives the storefront code as the text the header interpolates) and
  \<open>cheerio.load\<close>.
\<close>

definition ratings ::
  "(request \<Rightarrow> error + string) \<Rightarrow> (string \<Rightarrow> string) \<Rightarrow> (string \<Rightarrow> error + 'e dom) \<Rightarrow>
   RatingsOptions \<Rightarrow> Ratings outcome" where
  "ratings doRequest storeId load options =
     (let country = (case r_country options of None \<Rightarrow> ''us'' | Some c \<Rightarrow> c);
          requestOptions = r_requestOptions options
      in if \<not> truthy_num (r_id options) then ([], Inl IdIsRequired)
         else
           let storeFront = storeId country;
               base = (case requestOptions of
                         None \<Rightarrow> \<lparr>headers = None, transport = []\<rparr>
                       | Some ro \<Rightarrow> ro);
               given = (case requestOptions of
                          None \<Rightarrow> []
                        | Some ro \<Rightarrow> (case headers ro of None \<Rightarrow> [] | Some h \<Rightarrow> h));
               req = (CustomerReviewsUrl country (the (r_id options)),
                      Some (base\<lparr>headers :=
                        Some (spread [(''X-Apple-Store-Front'', storeFront @ '',12'')] given)\<rparr>))
           in case doRequest req of
                Inl e \<Rightarrow> ([req], Inl e)
              | Inr html \<Rightarrow>
                  if length html = 0 then ([req], Inl AppNotFound404)
                  else ([req], parseRatings load html))"

section \<open>privacy\<close>

record PrivacyType =
  privacyType :: string
  pt_name :: string
  description :: string
  dataCategories :: "string list"
  purposes :: "string list"

record PrivacyDetails =
  privacyPolicyUrl :: "string option"
  privacyTypes :: "PrivacyType list option"

record PrivacyOptions =
  pv_id :: "int option"
  pv_country :: "string option"
  pv_requestOptions :: "requestOptions option"

text \<open>
  The first \<open>each\<close> of \<open>privacy\<close>: the value of the variable \<open>privacyPolicyUrl\<close> after
  the loop over the external links. \<open>return false\<close> ends the loop at the first link
  whose \<open>aria-label\<close> includes \<open>Privacy Policy\<close>.
\<close>

fun each_link :: "'e dom \<Rightarrow> 'e list \<Rightarrow> string option" where
  "each_link d [] = None"
| "each_link d (el # els) =
     (let ariaLabel = attr_of d el ''aria-label''
      in if truthy_str ariaLabel \<and> includes_str (the ariaLabel) ''Privacy Policy''
         then attr_of d el ''href''
         else each_link d els)"

text \<open>The innermost \<open>each\<close>: \<open>dataTypes.push($(li).text().trim())\<close>.\<close>

fun each_li :: "'e dom \<Rightarrow> 'e list \<Rightarrow> string list \<Rightarrow> string list" where
  "each_li d [] dataTypes = dataTypes"
| "each_li d (li # lis) dataTypes = each_li d lis (dataTypes @ [trim (text_of d li)])"

text \<open>The \<open>each\<close> over the category items of one purpose section.\<close>

fun each_category :: "'e dom \<Rightarrow> string \<Rightarrow> 'e list \<Rightarrow> PrivacyType list \<Rightarrow> PrivacyType list" where
  "each_category d purpose [] types = types"
| "each_category d purpose (category # rest) types =
     (let categoryName = trim (sel_text d (find_in d category ''.category-title''));
          dataTypes = each_li d (find_in d category ''.privacy-data-types li'') []
      in if categoryName \<noteq> [] \<and> length dataTypes > 0
         then each_category d purpose rest
                (types @ [\<lparr>privacyType = categoryName, pt_name = categoryName,
                            description = ''Used for '' @ purpose,
                            dataCategories = dataTypes, purposes = [purpose]\<rparr>])
         else each_category d purpose rest types)"

text \<open>The \<open>each\<close> over the purpose sections.\<close>

fun each_section :: "'e dom \<Rightarrow> 'e list \<Rightarrow> PrivacyType list \<Rightarrow> PrivacyType list" where
  "each_section d [] types = types"
| "each_section d (sec # rest) types =
     (let purpose = trim (sel_text d (find_in d sec ''h3''))
      in each_section d rest
           (each_category d purpose (find_in d sec ''li.purpose-category'') types))"

text \<open>
  \<open>privacy\<close> of \<open>privacy.ts\<close>. Parameters: \<open>doRequest\<close> of \<open>common.js\<close> and
  \<open>cheerio.load\<close>.
\<close>

definition privacy ::
  "(request \<Rightarrow> error + string) \<Rightarrow> (string \<Rightarrow> error + 'e dom) \<Rightarrow> PrivacyOptions \<Rightarrow>
   PrivacyDetails outcome" where
  \<open>privacy doRequest load options =
     (let country = (case pv_country options of None \<Rightarrow> ''us'' | Some c \<Rightarrow> c)
      in if \<not> truthy_num (pv_id options) then ([], Inl IdIsRequired)
         else
           let req = (AppPageUrl country (the (pv_id options)), pv_requestOptions options)
           in case doRequest req of
                Inl e \<Rightarrow> ([req], Inl e)
              | Inr appPageBody \<Rightarrow>
                  (case load appPageBody of
                     Inl e \<Rightarrow> ([req], Inl e)
                   | Inr d \<Rightarrow>
                       let policyUrl = each_link d
                             (query d ''dialog[data-testid="dialog"] a[data-test-id="external-link"]'');
                           types = each_section d
                             (query d ''dialog[data-testid="dialog"] section.purpose-section'') [];
                           result = \<lparr>privacyPolicyUrl = None, privacyTypes = None\<rparr>;
                           result = (if truthy_str policyUrl
                                     then result\<lparr>privacyPolicyUrl := policyUrl\<rparr> else result);
                           result = (if length types > 0
                                     then result\<lparr>privacyTypes := Some types\<rparr> else result)
                       in ([req], Inr result)))\<close>

section \<open>versionHistory\<close>

record VersionHistory =
  versionDisplay :: string
  releaseDate :: string
  releaseNotes :: "string option"

record VersionHistoryOptions =
  vh_id :: "int option"
  vh_country :: "string option"
  vh_requestOptions :: "requestOptions option"

text \<open>The \<open>each\<close> over the articles: one \<open>versions.push\<close> per article.\<close>

fun each_article :: "'e dom \<Rightarrow> 'e list \<Rightarrow> VersionHistory list \<Rightarrow> VersionHistory list" where
  "each_article d [] versions = versions"
| "each_article d (element # rest) versions =
     (let notes = trim (sel_text d (find_in d element ''p.svelte-13339ih''));
          display = trim (sel_text d (find_in d element ''h4.svelte-13339ih''));
          releaseDateRaw = (case sel_attr d (find_in d element ''time'') ''datetime'' of
                              None \<Rightarrow> []
                            | Some v \<Rightarrow> v)
      in each_article d rest
           (versions @ [\<lparr>versionDisplay = display, releaseDate = releaseDateRaw,
                          releaseNotes = (if notes \<noteq> [] then Some notes else None)\<rparr>]))"

definition versionHistory ::
  "(request \<Rightarrow> error + string) \<Rightarrow> (string \<Rightarrow> error + 'e dom) \<Rightarrow> VersionHistoryOptions \<Rightarrow>
   VersionHistory list outcome" where
  \<open>versionHistory doRequest load options =
     (let country = (case vh_country options of None \<Rightarrow> ''us'' | Some c \<Rightarrow> c)
      in if \<not> truthy_num (vh_id options) then ([], Inl IdIsRequired)
         else
           let req = (AppPageUrl country (the (vh_id options)), vh_requestOptions options)
           in case doRequest req of
                Inl e \<Rightarrow> ([req], Inl e)
              | Inr appPageBody \<Rightarrow>
                  (case load appPageBody of
                     Inl e \<Rightarrow> ([req], Inl e)
                   | Inr d \<Rightarrow>
                       ([req], Inr (each_article d
                          (query d ''dialog[data-testid="dialog"] article.svelte-13339ih'') []))))\<close>

section \<open>suggest\<close>

text \<open>
  The validated property list. The \<open>string\<close> field of a suggestion dict is a scalar, a
  sequence or missing; \<open>array\<close> is a bare string or an object with an optional \<open>dict\<close>
  child.
\<close>

datatype string_field = NoString | Scalar string | Sequence "string list"

datatype array_data = ArrayString string | ArrayObject "string_field list option"

record plist_dict =
  pl_array :: "array_data option"

record plist_root =
  pl_dict :: "plist_dict option"

record suggest_response =
  plist :: "plist_root option"

datatype Suggestion = Suggestion (term_of: string)

record SuggestOptions =
  sg_term :: "string option"
  sg_requestOptions :: "requestOptions option"

text \<open>The \<open>for\<close> loop over the dicts; the \<open>console.log\<close> calls are left out.\<close>

fun for_dicts :: "string_field list \<Rightarrow> Suggestion list \<Rightarrow> Suggestion list" where
  "for_dicts [] suggestions = suggestions"
| "for_dicts (dict # rest) suggestions =
     (let strings = (case dict of
                       Sequence ss \<Rightarrow> map Some ss
                     | Scalar s \<Rightarrow> [Some s]
                     | NoString \<Rightarrow> [None]);
          first = (case strings of [] \<Rightarrow> None | t # _ \<Rightarrow> t)
      in if truthy_str first
         then for_dicts rest (suggestions @ [Suggestion (the first)])
         else for_dicts rest suggestions)"

text \<open>\<open>result.plist?.dict?.array\<close>.\<close>

definition array_of :: "suggest_response \<Rightarrow> array_data option" where
  "array_of result =
     (case plist result of
        None \<Rightarrow> None
      | Some pl \<Rightarrow> (case pl_dict pl of None \<Rightarrow> None | Some dc \<Rightarrow> pl_array dc))"

text \<open>
  \<open>suggest\<close>. Parameters: \<open>doRequest\<close> of \<open>common.js\<close>, the XML parser's \<open>parse\<close> and
  \<open>suggestResponseSchema.safeParse\<close> (\<open>Inl\<close> the validation error's message).
\<close>

definition suggest ::
  "(request \<Rightarrow> error + string) \<Rightarrow> (string \<Rightarrow> error + 'x) \<Rightarrow>
   ('x \<Rightarrow> string + suggest_response) \<Rightarrow> SuggestOptions \<Rightarrow> Suggestion list outcome" where
  "suggest doRequest parse safeParse options =
     (if \<not> truthy_str (sg_term options) then ([], Inl TermIsRequired)
      else
        let req = (HintsUrl (the (sg_term options)), sg_requestOptions options)
        in case doRequest req of
             Inl e \<Rightarrow> ([req], Inl e)
           | Inr body \<Rightarrow>
               (case parse body of
                  Inl e \<Rightarrow> ([req], Inl e)
                | Inr parsedData \<Rightarrow>
                    (case safeParse parsedData of
                       Inl msg \<Rightarrow> ([req], Inl (SuggestValidationFailed msg))
                     | Inr result \<Rightarrow>
                         (case array_of result of
                            None \<Rightarrow> ([req], Inr [])
                          | Some (ArrayString s) \<Rightarrow> ([req], Inr [])
                          | Some (ArrayObject None) \<Rightarrow> ([req], Inr [])
                          | Some (ArrayObject (Some dicts)) \<Rightarrow>
                              ([req], Inr (for_dicts dicts []))))))"

section \<open>app: screenshot scraping\<close>

text \<open>\<open>s.split(',')\<close> (any separator character): at least one piece, also for \<open>''\<close>.\<close>

fun split_on :: "char \<Rightarrow> string \<Rightarrow> string list" where
  "split_on sep [] = [[]]"
| "split_on sep (c # cs) =
     (if c = sep then [] # split_on sep cs
      else (case split_on sep cs of
              [] \<Rightarrow> [[c]]
            | w # ws \<Rightarrow> (c # w) # ws))"

text \<open>
  \<open>s.split(/\s+/)\<close>: the pieces between the maximal runs of white space. \<open>gap\<close> says
  that the previous character was white space.
\<close>

fun split_ws_from :: "bool \<Rightarrow> string \<Rightarrow> string list" where
  "split_ws_from gap [] = [[]]"
| "split_ws_from gap (c # cs) =
     (if isWhiteSpace c then (if gap then split_ws_from True cs else [] # split_ws_from True cs)
      else (case split_ws_from False cs of
              [] \<Rightarrow> [[c]]
            | w # ws \<Rightarrow> (c # w) # ws))"

definition split_ws :: "string \<Rightarrow> string list" where
  "split_ws s = split_ws_from False s"

text \<open>
  \<open>widthPart.match(/(\d+)w/)\<close>: group 1 of the leftmost match, the digits of the first
  run of digits that a \<open>w\<close> follows. \<open>run\<close> is the run of digits read so far.
\<close>

fun match_width :: "string \<Rightarrow> string \<Rightarrow> string option" where
  "match_width run [] = None"
| "match_width run (c # cs) =
     (if isDigit c then match_width (run @ [c]) cs
      else if c = CHR ''w'' \<and> run \<noteq> [] then Some run
      else match_width [] cs)"

text \<open>The callback of \<open>map\<close> in \<open>extractScreenshotUrl\<close>: the pair \<open>{url, width}\<close>.\<close>

definition srcset_entry :: "string \<Rightarrow> string option \<times> int" where
  "srcset_entry entry =
     (let parts = split_ws (trim entry);
          url = (case parts of [] \<Rightarrow> None | u # _ \<Rightarrow> Some u);
          widthPart = (case parts of u # w # _ \<Rightarrow> Some w | _ \<Rightarrow> None);
          widthMatch = (case widthPart of None \<Rightarrow> None | Some w \<Rightarrow> match_width [] w);
          width = (case widthMatch of
                     None \<Rightarrow> 0
                   | Some m \<Rightarrow> if m \<noteq> [] then decimal m else 0)
      in (url, width))"

text \<open>
  The pieces of the pattern \<open>/\/\d+x\d+bb(-\d+)?\.(webp|jpg|jpeg|png)$/\<close>: \<open>eat_digits\<close>
  is \<open>\d+\<close> and \<open>eat lit\<close> a literal, each giving the rest of the input.
\<close>

definition eat_digits :: "string \<Rightarrow> string option" where
  "eat_digits s = (if takeWhile isDigit s = [] then None else Some (dropWhile isDigit s))"

definition eat :: "string \<Rightarrow> string \<Rightarrow> string option" where
  "eat lit s = (if take (length lit) s = lit then Some (drop (length lit) s) else None)"

text \<open>The pattern after its leading slash, against the whole of \<open>seg\<close>.\<close>

definition size_token :: "string \<Rightarrow> bool" where
  "size_token seg =
     (case eat_digits seg of
        None \<Rightarrow> False
      | Some r1 \<Rightarrow>
          (case eat ''x'' r1 of
             None \<Rightarrow> False
           | Some r2 \<Rightarrow>
               (case eat_digits r2 of
                  None \<Rightarrow> False
                | Some r3 \<Rightarrow>
                    (case eat ''bb'' r3 of
                       None \<Rightarrow> False
                     | Some r4 \<Rightarrow>
                         (case (case eat ''-'' r4 of
                                  None \<Rightarrow> Some r4
                                | Some r5 \<Rightarrow> eat_digits r5) of
                            None \<Rightarrow> False
                          | Some r6 \<Rightarrow>
                              r6 \<in> set [''.webp'', ''.jpg'', ''.jpeg'', ''.png''])))))"

text \<open>
  \<open>url.replace(pattern, '/392x696bb.png')\<close>. The pattern starts with a slash, holds no
  other slash and ends at the end of the input, so it can only match from the last slash.
\<close>

definition replace_size :: "string \<Rightarrow> string" where
  "replace_size u =
     (let seg = rev (takeWhile (\<lambda>c. c \<noteq> CHR ''/'') (rev u));
          front = rev (dropWhile (\<lambda>c. c \<noteq> CHR ''/'') (rev u))
      in if front \<noteq> [] \<and> size_token seg then front @ ''392x696bb.png'' else u)"

text \<open>
  \<open>extractScreenshotUrl\<close>. The sort by descending width is stable, so \<open>entries[0]\<close> is
  the first entry of the largest width.
\<close>

definition extractScreenshotUrl :: "string \<Rightarrow> string option" where
  "extractScreenshotUrl srcset =
     (let entries = map srcset_entry (split_on (CHR '','') srcset);
          entries = sort_key (\<lambda>e. - snd e) entries
      in case entries of
           [] \<Rightarrow> None
         | best # _ \<Rightarrow> if truthy_str (fst best) then Some (replace_size (the (fst best))) else None)"

record Screenshots =
  sc_screenshots :: "string list"
  sc_ipadScreenshots :: "string list"
  sc_appletvScreenshots :: "string list"

text \<open>
  The \<open>each\<close> over the \<open>source\<close> elements of one device class; \<open>urls\<close> is the array of
  \<open>result\<close> the loop pushes to.
\<close>

fun each_source :: "'e dom \<Rightarrow> 'e list \<Rightarrow> string list \<Rightarrow> string list" where
  "each_source d [] urls = urls"
| "each_source d (el # els) urls =
     (let srcset = attr_of d el ''srcset''
      in if truthy_str srcset
         then (let u = extractScreenshotUrl (the srcset)
               in if truthy_str u \<and> the u \<notin> set urls
                  then each_source d els (urls @ [the u])
                  else each_source d els urls)
         else each_source d els urls)"

text \<open>
  \<open>scrapeScreenshots\<close>. The \<open>try\<close> block can throw in \<open>doRequest\<close> and in
  \<open>cheerio.load\<close>, both before \<open>result\<close> is written to; the \<open>catch\<close> swallows the error
  and \<open>result\<close> is returned as it stands.
\<close>

definition scrapeScreenshots ::
  "(request \<Rightarrow> error + string) \<Rightarrow> (string \<Rightarrow> error + 'e dom) \<Rightarrow> int \<Rightarrow> string \<Rightarrow>
   requestOptions option \<Rightarrow> Screenshots outcome" where
  \<open>scrapeScreenshots doRequest load appId country requestOptions =
     (let result = \<lparr>sc_screenshots = [], sc_ipadScreenshots = [], sc_appletvScreenshots = []\<rparr>;
          req = (AppPageUrl country appId, requestOptions)
      in case doRequest req of
           Inl e \<Rightarrow> ([req], Inr result)
         | Inr body \<Rightarrow>
             (case load body of
                Inl e \<Rightarrow> ([req], Inr result)
              | Inr d \<Rightarrow>
                  let result = result\<lparr>sc_screenshots := each_source d
                        (query d ''ul.shelf-grid__list--grid-type-ScreenshotPhone source[type="image/webp"]'')
                        (sc_screenshots result)\<rparr>;
                      result = result\<lparr>sc_ipadScreenshots := each_source d
                        (query d ''ul.shelf-grid__list--grid-type-ScreenshotPad source[type="image/webp"]'')
                        (sc_ipadScreenshots result)\<rparr>;
                      result = result\<lparr>sc_appletvScreenshots := each_source d
                        (query d ''ul.shelf-grid__list--grid-type-ScreenshotAppleTv source[type="image/webp"]'')
                        (sc_appletvScreenshots result)\<rparr>
                  in ([req], Inr result)))\<close>

section \<open>app\<close>

text \<open>
  The App record. The code of \<open>app\<close> reads and writes the fields below; every other field
  lives in the record's extension.
\<close>

record App =
  a_id :: int
  screenshots :: "string list"
  ipadScreenshots :: "string list"
  appletvScreenshots :: "string list"
  histogram :: "RatingHistogram option"

record AppOptions =
  o_id :: "int option"
  o_appId :: "string option"
  o_country :: "string option"
  o_lang :: "string option"
  o_ratings :: "bool option"
  o_requestOptions :: "requestOptions option"

text \<open>\<open>id || appId\<close>.\<close>

definition id_or_appId :: "AppOptions \<Rightarrow> js_value" where
  "id_or_appId options =
     (if truthy_num (o_id options) then NumV (the (o_id options))
      else (case o_appId options of None \<Rightarrow> Undefined | Some a \<Rightarrow> StrV a))"

text \<open>
  \<open>app\<close>. Parameters: \<open>validateRequiredField\<close> (\<open>Some\<close> the error it throws), \<open>lookup\<close>,
  \<open>doRequest\<close> and \<open>storeId\<close> of \<open>common.js\<close>, and \<open>cheerio.load\<close>. The requests that
  \<open>lookup\<close> makes inside \<open>common.js\<close> are not part of the list returned.
\<close>

definition app ::
  "(AppOptions \<Rightarrow> string list \<Rightarrow> string \<Rightarrow> error option) \<Rightarrow>
   (js_value \<Rightarrow> string \<Rightarrow> string \<Rightarrow> string option \<Rightarrow> requestOptions option \<Rightarrow>
      error + 'z App_scheme list) \<Rightarrow>
   (request \<Rightarrow> error + string) \<Rightarrow> (string \<Rightarrow> string) \<Rightarrow> (string \<Rightarrow> error + 'e dom) \<Rightarrow>
   AppOptions \<Rightarrow> 'z App_scheme outcome" where
  "app validateRequiredField lookup doRequest storeId load options =
     (case validateRequiredField options [''id'', ''appId''] ''Either id or appId is required'' of
        Some e \<Rightarrow> ([], Inl e)
      | None \<Rightarrow>
          let country = (case o_country options of None \<Rightarrow> ''us'' | Some c \<Rightarrow> c);
              requestOptions = o_requestOptions options
          in case lookup (id_or_appId options)
                    (if truthy_num (o_id options) then ''id'' else ''bundleId'')
                    country (o_lang options) requestOptions of
               Inl e \<Rightarrow> ([], Inl e)
             | Inr apps \<Rightarrow>
                 (case apps of
                    [] \<Rightarrow> ([], Inl (AppNotFound (id_or_appId options)))
                  | appData # _ \<Rightarrow>
                      let hasNoScreenshots =
                            (length (screenshots appData) = 0 \<and>
                             length (ipadScreenshots appData) = 0 \<and>
                             length (appletvScreenshots appData) = 0)
                      in case (if hasNoScreenshots
                               then (case scrapeScreenshots doRequest load (a_id appData)
                                            country requestOptions of
                                       (log, Inl e) \<Rightarrow> (log, Inl e)
                                     | (log, Inr scraped) \<Rightarrow>
                                         (log, Inr (appData
                                            \<lparr>screenshots := sc_screenshots scraped,
                                             ipadScreenshots := sc_ipadScreenshots scraped,
                                             appletvScreenshots := sc_appletvScreenshots scraped\<rparr>)))
                               else ([], Inr appData)) of
                           (log1, Inl e) \<Rightarrow> (log1, Inl e)
                         | (log1, Inr appData) \<Rightarrow>
                             if truthy_bool (o_ratings options)
                             then (case ratings doRequest storeId load
                                          \<lparr>r_id = Some (a_id appData), r_country = Some country,
                                           r_requestOptions = requestOptions\<rparr> of
                                     (log2, Inl e) \<Rightarrow> (log1 @ log2, Inr appData)
                                   | (log2, Inr ratingsData) \<Rightarrow>
                                       (log1 @ log2,
                                        Inr (appData\<lparr>histogram := Some (rt_histogram ratingsData)\<rparr>)))
                             else (log1, Inr appData)))"

section \<open>Reference descriptions\<close>

text \<open>
  The definitions of this section are not code of the repository: each states, in closed
  form, what one of the loops above is proved to compute.
\<close>

text \<open>The entry of one article of the version history.\<close>

definition article_entry :: "'e dom \<Rightarrow> 'e \<Rightarrow> VersionHistory" where
  "article_entry d a =
     \<lparr>versionDisplay = trim (sel_text d (find_in d a ''h4.svelte-13339ih'')),
      releaseDate = (case sel_attr d (find_in d a ''time'') ''datetime'' of
                       None \<Rightarrow> []
                     | Some v \<Rightarrow> v),
      releaseNotes = (if trim (sel_text d (find_in d a ''p.svelte-13339ih'')) \<noteq> []
                      then Some (trim (sel_text d (find_in d a ''p.svelte-13339ih'')))
                      else None)\<rparr>"

text \<open>
  A category item emits a privacy-type record when its trimmed title is not empty and it
  has a data-type child.
\<close>

definition emits :: "'e dom \<Rightarrow> 'e \<Rightarrow> bool" where
  "emits d category =
     (trim (sel_text d (find_in d category ''.category-title'')) \<noteq> [] \<and>
      find_in d category ''.privacy-data-types li'' \<noteq> [])"

text \<open>The record of a category item under a purpose.\<close>

definition emitted_record :: "'e dom \<Rightarrow> string \<Rightarrow> 'e \<Rightarrow> PrivacyType" where
  "emitted_record d purpose category =
     \<lparr>privacyType = trim (sel_text d (find_in d category ''.category-title'')),
      pt_name = trim (sel_text d (find_in d category ''.category-title'')),
      description = ''Used for '' @ purpose,
      dataCategories = map (\<lambda>li. trim (text_of d li))
                         (find_in d category ''.privacy-data-types li''),
      purposes = [purpose]\<rparr>"

text \<open>The purpose of a section: the trimmed text of its \<open>h3\<close>.\<close>

definition purpose_of :: "'e dom \<Rightarrow> 'e \<Rightarrow> string" where
  "purpose_of d sec = trim (sel_text d (find_in d sec ''h3''))"

text \<open>One record per emitting category item of each section, in document order.\<close>

definition section_records :: "'e dom \<Rightarrow> 'e list \<Rightarrow> PrivacyType list" where
  "section_records d secs =
     concat (map (\<lambda>sec. map (emitted_record d (purpose_of d sec))
                           (filter (emits d) (find_in d sec ''li.purpose-category''))) secs)"

text \<open>
  The first string value of a dict entry, a scalar counting as a sequence of one element.
\<close>

fun first_string :: "string_field \<Rightarrow> string option" where
  "first_string NoString = None"
| "first_string (Scalar s) = Some s"
| "first_string (Sequence []) = None"
| "first_string (Sequence (s # _)) = Some s"

text \<open>The terms of a list of dict entries: their first strings that are not empty.\<close>

definition dict_terms :: "string_field list \<Rightarrow> string list" where
  "dict_terms dicts = filter (\<lambda>s. s \<noteq> []) (List.map_filter first_string dicts)"



text \<open>The record of \<open>scrapeScreenshots\<close> before anything is pushed to it.\<close>

definition no_screenshots :: Screenshots where
  "no_screenshots = \<lparr>sc_screenshots = [], sc_ipadScreenshots = [], sc_appletvScreenshots = []\<rparr>"

section \<open>Example documents\<close>

text \<open>
  Concrete documents on which the theorems below are instantiated. Elements are numbers;
  a table lists the matches of every selector that has any.
\<close>

definition table :: "('k \<times> 'v list) list \<Rightarrow> 'k \<Rightarrow> 'v list" where
  "table t k = (case map_of t k of None \<Rightarrow> [] | Some v \<Rightarrow> v)"

text \<open>
  A store page: two \<open>source\<close> elements of the phone shelf with the same candidates and
  no tablet or TV shelf; two version articles, the second without notes and without a
  \<open>datetime\<close>; two external links, the second of them the privacy policy; two purpose
  sections, where category 15 has no data type and category 21 has no title.
\<close>

definition store_page :: "nat dom" where
  \<open>store_page =
     \<lparr>query = table
        [(''ul.shelf-grid__list--grid-type-ScreenshotPhone source[type="image/webp"]'', [0, 1]),
         (''dialog[data-testid="dialog"] article.svelte-13339ih'', [2, 3]),
         (''dialog[data-testid="dialog"] a[data-test-id="external-link"]'', [9, 10]),
         (''dialog[data-testid="dialog"] section.purpose-section'', [11, 12])],
      find_in = (\<lambda>el sel. table
        [((2, ''p.svelte-13339ih''), [4]), ((2, ''h4.svelte-13339ih''), [5]), ((2, ''time''), [6]),
         ((3, ''h4.svelte-13339ih''), [7]), ((3, ''time''), [8]),
         ((11, ''h3''), [13]), ((11, ''li.purpose-category''), [14, 15]),
         ((14, ''.category-title''), [16]), ((14, ''.privacy-data-types li''), [17, 18]),
         ((15, ''.category-title''), [19]),
         ((12, ''h3''), [20]), ((12, ''li.purpose-category''), [21]),
         ((21, ''.privacy-data-types li''), [22])] (el, sel)),
      text_of = (\<lambda>el. table
        [(4, '' Bug fixes. ''), (5, ''2.1''), (7, ''2.0''),
         (13, ''Analytics''), (16, '' Location''), (17, ''Precise Location''),
         (18, ''Coarse Location ''), (19, ''Identifiers''),
         (20, ''App Functionality''), (22, ''Email Address'')] el),
      attr_of = (\<lambda>el a. map_of
        [((0, ''srcset''), ''https://cdn/a/300x650bb.webp 300w, https://cdn/a/600x1300bb-60.webp 600w''),
         ((1, ''srcset''), ''https://cdn/a/300x650bb.webp 300w, https://cdn/a/600x1300bb-60.webp 600w''),
         ((6, ''datetime''), ''2024-05-01''),
         ((9, ''aria-label''), ''Terms of Use''), ((9, ''href''), ''https://example.com/terms''),
         ((10, ''aria-label''), ''Developer Privacy Policy''),
         ((10, ''href''), ''https://example.com/privacy'')] (el, a))\<rparr>\<close>

text \<open>A page on which no selector matches anything.\<close>

definition blank_page :: "nat dom" where
  "blank_page = \<lparr>query = (\<lambda>sel. []), find_in = (\<lambda>el sel. []), text_of = (\<lambda>el. []),
                 attr_of = (\<lambda>el a. None)\<rparr>"

text \<open>
  A privacy dialog with one purpose section (element 0) holding one category item
  (element 1) that lists a data type (element 2) and has no title element.
\<close>

definition untitled_category_page :: "nat dom" where
  \<open>untitled_category_page =
     \<lparr>query = table [(''dialog[data-testid="dialog"] section.purpose-section'', [0])],
      find_in = (\<lambda>el sel. table
        [((0, ''h3''), [3]), ((0, ''li.purpose-category''), [1]),
         ((1, ''.privacy-data-types li''), [2])] (el, sel)),
      text_of = (\<lambda>el. table [(2, ''Email Address''), (3, ''Analytics'')] el),
      attr_of = (\<lambda>el a. None)\<rparr>\<close>

text \<open>
  A customer-reviews page with a rating count and six elements matching
  \<open>.vote .total\<close>, the second of them without a number.
\<close>

definition six_bar_page :: "nat dom" where
  "six_bar_page =
     \<lparr>query = table [(''.rating-count'', [0]), (''.vote .total'', [1, 2, 3, 4, 5, 6])],
      find_in = (\<lambda>el sel. []),
      text_of = (\<lambda>el. table
        [(0, ''21 Ratings''), (1, ''6''), (2, ''n/a''), (3, ''4''), (4, ''3''), (5, ''2''),
         (6, ''1'')] el),
      attr_of = (\<lambda>el a. None)\<rparr>"




text \<open>
  Transports: one that fails every request, one that serves the store page and fails the
  customer-reviews page, and one that serves any page.
\<close>

definition offline :: "request \<Rightarrow> error + string" where
  "offline req = Inl (Thrown ''ENETDOWN'')"


definition online :: "request \<Rightarrow> error + string" where
  "online req = Inr ''<html>''"

section \<open>Properties of search\<close>

lemma slice_nonneg:
  "slice xs (int a) (int a + int n) = take n (drop a xs)"
proof -
  have "take (nat (min (int a + int n) (int (length xs)) - min (int a) (int (length xs))))
          (drop (nat (min (int a) (int (length xs)))) xs) = take n (drop a xs)"
  proof (cases "a \<le> length xs")
    case True
    then have k: "nat (min (int a) (int (length xs))) = a" by simp
    have "take (nat (min (int a + int n) (int (length xs)) - int a)) (drop a xs)
            = take n (drop a xs)"
    proof (cases "a + n \<le> length xs")
      case True
      then show ?thesis by simp
    next
      case False
      then have "nat (min (int a + int n) (int (length xs)) - int a) = length xs - a"
        using \<open>a \<le> length xs\<close> by (simp add: min_def)
      moreover have "length (drop a xs) \<le> n" using False by simp
      ultimately show ?thesis by simp
    qed
    with True show ?thesis by (simp add: min_def)
  next
    case False
    then show ?thesis by (simp add: min_def)
  qed
  then show ?thesis by (simp add: slice_def Let_def)
qed

lemma slice_page:
  assumes "1 \<le> p" and "1 \<le> n"
  shows "slice xs ((p - 1) * n) ((p - 1) * n + n) = take (nat n) (drop ((nat p - 1) * nat n) xs)"
proof -
  obtain a where a: "p = int a + 1" using assms(1) by (metis add.commute zle_iff_zadd)
  obtain b where b: "n = int b" using assms(2) by (metis nonneg_int_cases order_trans zero_le_one)
  have "slice xs (int (a * b)) (int (a * b) + int b) = take b (drop (a * b) xs)"
    by (rule slice_nonneg)
  moreover have "nat (int a + 1) - Suc 0 = a" by simp
  ultimately show ?thesis by (simp add: a b)
qed

text \<open>
  C1. For a page \<open>p \<ge> 1\<close> and a page size \<open>n \<ge> 1\<close>, \<open>search\<close> makes one request, with
  \<open>limit = p * n\<close>; when the response arrives and validates, the result is built from the
  software-only entries at positions \<open>[(p - 1) * n, p * n)\<close>, in upstream order (each
  normalised by \<open>cleanApp\<close>, or its identifier in ids-only mode), so it has at most \<open>n\<close>
  entries.
\<close>

theorem search_pagination:
  assumes "1 \<le> p" and "1 \<le> n"
    and "truthy_str (s_term options)"
    and "s_page options = Some p" and "s_num options = Some n"
  shows "fst (search doRequest JSON_parse safeParse cleanApp options)
           = [search_request options (p * n)] \<and>
         (\<forall>body j response.
            doRequest (search_request options (p * n)) = Inr body \<longrightarrow>
            JSON_parse body = Inr j \<longrightarrow> safeParse j = Inr response \<longrightarrow>
            snd (search doRequest JSON_parse safeParse cleanApp options)
              = Inr (if truthy_bool (s_idsOnly options)
                     then Ids (map the (filter (\<lambda>i. i \<noteq> None)
                            (map trackId (page_window (results response) (nat p) (nat n)))))
                     else Apps (map cleanApp (page_window (results response) (nat p) (nat n)))) \<and>
            (\<forall>r. snd (search doRequest JSON_parse safeParse cleanApp options) = Inr r \<longrightarrow>
                 result_length r \<le> nat n))"
proof -
  let ?req = "search_request options (p * n)"
  let ?S = "search doRequest JSON_parse safeParse cleanApp options"
  have unfold: "?S =
      (case doRequest ?req of
         Inl e \<Rightarrow> ([?req], Inl e)
       | Inr body \<Rightarrow>
           (case JSON_parse body of
              Inl e \<Rightarrow> ([?req], Inl e)
            | Inr parsedData \<Rightarrow>
                (case safeParse parsedData of
                   Inl msg \<Rightarrow> ([?req], Inl (SearchValidationFailed msg))
                 | Inr response \<Rightarrow>
                     if truthy_bool (s_idsOnly options)
                     then ([?req], Inr (Ids (map the (filter (\<lambda>i. i \<noteq> None)
                            (map trackId (page_window (results response) (nat p) (nat n)))))))
                     else ([?req], Inr (Apps (map cleanApp
                            (page_window (results response) (nat p) (nat n))))))))"
    using assms(3-5)
    by (cases "truthy_str (s_lang options)")
       (auto simp: search_def Let_def search_request_def slice_page [OF assms(1,2)]
          page_window_def split: sum.splits)
  have log: "fst ?S = [?req]"
    unfolding unfold by (simp split: sum.splits)
  have len: "length (page_window rs (nat p) (nat n)) \<le> nat n" for rs :: "'c ITunesAppResponse_scheme list"
    by (simp add: page_window_def)
  have lenf: "length (filter (\<lambda>i. i \<noteq> None) (map trackId (page_window rs (nat p) (nat n)))) \<le> nat n"
    for rs :: "'c ITunesAppResponse_scheme list"
    using len [of rs] by (meson le_trans length_filter_le length_map[THEN eq_imp_le] ) 
  show ?thesis
  proof (intro conjI allI impI)
    show "fst ?S = [?req]" by (rule log)
  next
    fix body j response
    assume "doRequest ?req = Inr body" "JSON_parse body = Inr j" "safeParse j = Inr response"
    then show "snd ?S = Inr (if truthy_bool (s_idsOnly options)
                     then Ids (map the (filter (\<lambda>i. i \<noteq> None)
                            (map trackId (page_window (results response) (nat p) (nat n)))))
                     else Apps (map cleanApp (page_window (results response) (nat p) (nat n))))"
      unfolding unfold by simp
  next
    fix body j response r
    assume "doRequest ?req = Inr body" "JSON_parse body = Inr j" "safeParse j = Inr response"
      and "snd ?S = Inr r"
    then show "result_length r \<le> nat n"
      unfolding unfold using len lenf by (auto split: if_splits)
  qed
qed

theorem search_pagination_witness:
  "search (\<lambda>req. Inr ''{}'') (\<lambda>body. Inr body)
     (\<lambda>j. Inr \<lparr>results = [\<lparr>kind = Some ''software'', trackId = Some 1\<rparr>,
                            \<lparr>kind = Some ''ebook'', trackId = Some 2\<rparr>,
                            \<lparr>kind = Some ''software'', trackId = Some 3\<rparr>,
                            \<lparr>kind = Some ''software'', trackId = Some 4\<rparr>,
                            \<lparr>kind = Some ''software'', trackId = None\<rparr>,
                            \<lparr>kind = Some ''software'', trackId = Some 6\<rparr>]\<rparr>)
     trackId
     \<lparr>s_term = Some ''minecraft'', s_num = Some 2, s_page = Some 2, s_country = None,
      s_lang = None, s_idsOnly = None, s_requestOptions = None\<rparr>
   = ([(SearchUrl \<lparr>p_term = ''minecraft'', p_country = ''us'', p_media = ''software'',
                    p_entity = ''software'', p_limit = 4, p_lang = None\<rparr>, None)],
      Inr (Apps [Some 4, None]))"
  using search_pagination [of 2 2
      "\<lparr>s_term = Some ''minecraft'', s_num = Some 2, s_page = Some 2, s_country = None,
        s_lang = None, s_idsOnly = None, s_requestOptions = None\<rparr>"
      "\<lambda>req. Inr ''{}''" "\<lambda>body. Inr body"
      "\<lambda>j. Inr \<lparr>results = [\<lparr>kind = Some ''software'', trackId = Some 1\<rparr>,
                            \<lparr>kind = Some ''ebook'', trackId = Some 2\<rparr>,
                            \<lparr>kind = Some ''software'', trackId = Some 3\<rparr>,
                            \<lparr>kind = Some ''software'', trackId = Some 4\<rparr>,
                            \<lparr>kind = Some ''software'', trackId = None\<rparr>,
                            \<lparr>kind = Some ''software'', trackId = Some 6\<rparr>]\<rparr>"
      trackId]
  by (simp add: search_request_def page_window_def prod_eq_iff)

section \<open>The loops in closed form\<close>

lemma trim_Nil: "trim [] = []"
  by (simp add: trim_def)

lemma sel_text_Nil: "sel_text d [] = []"
  by (simp add: sel_text_def)

lemma each_source_Nil: "each_source d [] urls = urls"
  by simp

lemma each_article_map: "each_article d els versions = versions @ map (article_entry d) els"
  by (induction els arbitrary: versions) (simp_all add: article_entry_def Let_def)

lemma each_li_map: "each_li d lis dataTypes = dataTypes @ map (\<lambda>li. trim (text_of d li)) lis"
  by (induction lis arbitrary: dataTypes) simp_all

lemma each_category_filter:
  "each_category d purpose cats types
     = types @ map (emitted_record d purpose) (filter (emits d) cats)"
  by (induction cats arbitrary: types)
     (simp_all add: Let_def each_li_map emits_def emitted_record_def)

lemma each_section_records: "each_section d secs types = types @ section_records d secs"
  by (induction secs arbitrary: types)
     (simp_all add: Let_def each_category_filter section_records_def purpose_of_def)

lemma for_dicts_terms: "for_dicts dicts suggestions = suggestions @ map Suggestion (dict_terms dicts)"
proof (induction dicts arbitrary: suggestions)
  case Nil
  then show ?case by (simp add: dict_terms_def List.map_filter_simps)
next
  case (Cons dict rest)
  show ?case
  proof (cases dict)
    case NoString
    then show ?thesis using Cons by (simp add: dict_terms_def List.map_filter_simps)
  next
    case (Scalar s)
    then show ?thesis using Cons by (simp add: dict_terms_def List.map_filter_simps)
  next
    case (Sequence ss)
    then show ?thesis using Cons
      by (cases ss) (simp_all add: dict_terms_def List.map_filter_simps)
  qed
qed

lemma each_link_none:
  assumes "\<forall>el \<in> set els. \<not> (truthy_str (attr_of d el ''aria-label'') \<and>
             includes_str (the (attr_of d el ''aria-label'')) ''Privacy Policy'')"
  shows "each_link d els = None"
  using assms by (induction els) (auto simp: Let_def)

section \<open>Properties of ratings\<close>


text \<open>
  What \<open>parseRatings\<close> does guarantee: with at most five elements matching
  \<open>.vote .total\<close> the keys of the histogram are exactly 1 to 5. \<open>ratings\<close> fails when the
  id is missing, when the transport fails and when the body is empty.
\<close>

lemma reduce_histogram_dom:
  "dom (reduce_histogram acc i xs) = dom acc \<union> (\<lambda>k. 5 - int k) ` {i..<i + length xs}"
proof (induction xs arbitrary: acc i)
  case Nil
  then show ?case by simp
next
  case (Cons x xs)
  have "{i..<i + length (x # xs)} = insert i {Suc i..<Suc i + length xs}"
    by auto
  moreover have "dom (acc(5 - int i \<mapsto> x)) = insert (5 - int i) (dom acc)"
    by simp
  ultimately show ?case by (simp add: Cons.IH del: fun_upd_apply)
qed

lemma zero_histogram_dom: "dom zero_histogram = {1, 2, 3, 4, 5}"
  by (auto simp: zero_histogram_def)

lemma parseRatings_keys:
  assumes "load html = Inr d" and "length (query d ''.vote .total'') \<le> 5"
  shows "\<exists>r. parseRatings load html = Inr r \<and> dom (rt_histogram r) = {1, 2, 3, 4, 5}"
proof -
  let ?n = "length (query d ''.vote .total'')"
  have "(\<lambda>k. 5 - int k) ` {0..<?n} \<subseteq> {1, 2, 3, 4, 5}"
  proof
    fix y assume "y \<in> (\<lambda>k. 5 - int k) ` {0..<?n}"
    then obtain k where "k < 5" and "y = 5 - int k" using assms(2) by auto
    then have "k \<in> {0, 1, 2, 3, 4}" by auto
    with \<open>y = 5 - int k\<close> show "y \<in> {1, 2, 3, 4, 5}" by auto
  qed
  then show ?thesis
    using assms(1) by (auto simp: parseRatings_def Let_def reduce_histogram_dom zero_histogram_dom)
qed

lemma ratings_failures:
  "\<not> truthy_num (r_id options) \<Longrightarrow>
     snd (ratings doRequest storeId load options) = Inl IdIsRequired"
  "truthy_num (r_id options) \<Longrightarrow> \<forall>req. doRequest req = Inl e \<Longrightarrow>
     snd (ratings doRequest storeId load options) = Inl e"
  "truthy_num (r_id options) \<Longrightarrow> \<forall>req. doRequest req = Inr [] \<Longrightarrow>
     snd (ratings doRequest storeId load options) = Inl AppNotFound404"
  by (simp_all add: ratings_def Let_def)

text \<open>
  C2 fails on a customer-reviews page with six elements matching \<open>.vote .total\<close>, one of
  them without a number: the sixth element is stored under the key 0, so the key set is
  not \<open>{1, 2, 3, 4, 5}\<close>, and the element without a number gives the value \<open>NaN\<close>.
\<close>

theorem ratings_six_bars:
  "(case snd (ratings online (\<lambda>c. ''143441'') (\<lambda>h. Inr six_bar_page)
                \<lparr>r_id = Some 553834731, r_country = None, r_requestOptions = None\<rparr>) of
      Inl e \<Rightarrow> False
    | Inr r \<Rightarrow> rt_histogram r 0 = Some (Num 1) \<and> rt_histogram r 4 = Some NaN \<and>
               dom (rt_histogram r) \<noteq> {1, 2, 3, 4, 5})"
proof -
  have h: "map_sum id (\<lambda>r. map (rt_histogram r) [0, 4])
             (snd (ratings online (\<lambda>c. ''143441'') (\<lambda>h. Inr six_bar_page)
                \<lparr>r_id = Some 553834731, r_country = None, r_requestOptions = None\<rparr>))
           = Inr [Some (Num 1), Some NaN]"
    by code_simp
  then obtain r where
    r: "snd (ratings online (\<lambda>c. ''143441'') (\<lambda>h. Inr six_bar_page)
                \<lparr>r_id = Some 553834731, r_country = None, r_requestOptions = None\<rparr>) = Inr r"
    and z: "rt_histogram r 0 = Some (Num 1)" and n: "rt_histogram r 4 = Some NaN"
    by (cases "snd (ratings online (\<lambda>c. ''143441'') (\<lambda>h. Inr six_bar_page)
                \<lparr>r_id = Some 553834731, r_country = None, r_requestOptions = None\<rparr>)") auto
  have "(0::int) \<in> dom (rt_histogram r)" using z by (rule domI)
  moreover have "(0::int) \<notin> {1, 2, 3, 4, 5}" by simp
  ultimately have "dom (rt_histogram r) \<noteq> {1, 2, 3, 4, 5}" by blast
  with r z n show ?thesis by simp
qed

section \<open>Properties of app\<close>

lemma scrapeScreenshots_returns:
  "\<exists>r. snd (scrapeScreenshots doRequest load appId country ro) = Inr r"
  by (simp add: scrapeScreenshots_def Let_def split: sum.splits)



text \<open>No URL occurs twice in an array of the scraping result.\<close>

lemma each_source_distinct: "distinct urls \<Longrightarrow> distinct (each_source d els urls)"
  by (induction els arbitrary: urls) (simp_all add: Let_def)

lemma scrapeScreenshots_distinct:
  assumes "snd (scrapeScreenshots doRequest load appId country ro) = Inr r"
  shows "distinct (sc_screenshots r) \<and> distinct (sc_ipadScreenshots r) \<and>
         distinct (sc_appletvScreenshots r)"
  using assms
  by (auto simp: scrapeScreenshots_def Let_def each_source_distinct split: sum.splits)

text \<open>
  C4. \<open>scrapeScreenshots\<close> never throws: it always returns a record with the three
  arrays. A failing request and a failing parse both give three empty arrays, and a device
  class whose selector matches nothing gets an empty array.
\<close>

theorem scrapeScreenshots_never_throws:
  \<open>(\<exists>r. snd (scrapeScreenshots doRequest load appId country ro) = Inr r) \<and>
   (\<forall>e. doRequest (AppPageUrl country appId, ro) = Inl e \<longrightarrow>
        snd (scrapeScreenshots doRequest load appId country ro) = Inr no_screenshots) \<and>
   (\<forall>body e. doRequest (AppPageUrl country appId, ro) = Inr body \<longrightarrow> load body = Inl e \<longrightarrow>
        snd (scrapeScreenshots doRequest load appId country ro) = Inr no_screenshots) \<and>
   (\<forall>body d r. doRequest (AppPageUrl country appId, ro) = Inr body \<longrightarrow> load body = Inr d \<longrightarrow>
        snd (scrapeScreenshots doRequest load appId country ro) = Inr r \<longrightarrow>
        (query d ''ul.shelf-grid__list--grid-type-ScreenshotPhone source[type="image/webp"]'' = []
           \<longrightarrow> sc_screenshots r = []) \<and>
        (query d ''ul.shelf-grid__list--grid-type-ScreenshotPad source[type="image/webp"]'' = []
           \<longrightarrow> sc_ipadScreenshots r = []) \<and>
        (query d ''ul.shelf-grid__list--grid-type-ScreenshotAppleTv source[type="image/webp"]'' = []
           \<longrightarrow> sc_appletvScreenshots r = []))\<close>
proof (intro conjI allI impI)
  show "\<exists>r. snd (scrapeScreenshots doRequest load appId country ro) = Inr r"
    by (rule scrapeScreenshots_returns)
next
  fix e assume "doRequest (AppPageUrl country appId, ro) = Inl e"
  then show "snd (scrapeScreenshots doRequest load appId country ro) = Inr no_screenshots"
    by (simp add: scrapeScreenshots_def no_screenshots_def)
next
  fix body e
  assume "doRequest (AppPageUrl country appId, ro) = Inr body" "load body = Inl e"
  then show "snd (scrapeScreenshots doRequest load appId country ro) = Inr no_screenshots"
    by (simp add: scrapeScreenshots_def no_screenshots_def)
next
  fix body d r
  assume a: "doRequest (AppPageUrl country appId, ro) = Inr body" "load body = Inr d"
    "snd (scrapeScreenshots doRequest load appId country ro) = Inr r"
  {
    assume \<open>query d ''ul.shelf-grid__list--grid-type-ScreenshotPhone source[type="image/webp"]'' = []\<close>
    with a show "sc_screenshots r = []"
      by (auto simp: scrapeScreenshots_def Let_def)
  next
    assume \<open>query d ''ul.shelf-grid__list--grid-type-ScreenshotPad source[type="image/webp"]'' = []\<close>
    with a show "sc_ipadScreenshots r = []"
      by (auto simp: scrapeScreenshots_def Let_def)
  next
    assume \<open>query d ''ul.shelf-grid__list--grid-type-ScreenshotAppleTv source[type="image/webp"]'' = []\<close>
    with a show "sc_appletvScreenshots r = []"
      by (auto simp: scrapeScreenshots_def Let_def)
  }
qed

theorem scrapeScreenshots_never_throws_witness:
  "snd (scrapeScreenshots offline (\<lambda>h. Inr blank_page) 1 ''us'' None) = Inr no_screenshots \<and>
   snd (scrapeScreenshots online (\<lambda>h. Inl (Thrown ''parse'') :: error + nat dom) 1 ''us'' None)
     = Inr no_screenshots \<and>
   snd (scrapeScreenshots online (\<lambda>h. Inr store_page) 1 ''us'' None)
     = Inr \<lparr>sc_screenshots = [''https://cdn/a/392x696bb.png''], sc_ipadScreenshots = [],
            sc_appletvScreenshots = []\<rparr>"
proof -
  have off: "offline (AppPageUrl ''us'' 1, None) = Inl (Thrown ''ENETDOWN'')"
    by (simp add: offline_def)
  have on: "online (AppPageUrl ''us'' 1, None) = Inr ''<html>''"
    by (simp add: online_def)
  have page: "snd (scrapeScreenshots online (\<lambda>h. Inr store_page) 1 ''us'' None)
     = Inr \<lparr>sc_screenshots = [''https://cdn/a/392x696bb.png''], sc_ipadScreenshots = [],
            sc_appletvScreenshots = []\<rparr>"
    by code_simp
  from scrapeScreenshots_never_throws [of offline "\<lambda>h. Inr blank_page" 1 "''us''" None] off
  have 1: "snd (scrapeScreenshots offline (\<lambda>h. Inr blank_page) 1 ''us'' None) = Inr no_screenshots"
    by blast
  from scrapeScreenshots_never_throws
         [of online "\<lambda>h. Inl (Thrown ''parse'') :: error + nat dom" 1 "''us''" None] on
  have 2: "snd (scrapeScreenshots online (\<lambda>h. Inl (Thrown ''parse'') :: error + nat dom) 1 ''us'' None)
     = Inr no_screenshots"
    by blast
  from 1 2 page show ?thesis by simp
qed








section \<open>Properties of privacy\<close>

text \<open>
  C6. The result of \<open>privacy\<close> never holds \<open>privacyTypes\<close> as an empty array nor
  \<open>privacyPolicyUrl\<close> as the empty string: with no link labelled as the privacy policy
  the URL field is omitted, and with no privacy-type record extracted the types field is
  omitted.
\<close>

theorem privacy_omits_empty_fields:
  assumes "snd (privacy doRequest load options) = Inr r"
  shows \<open>privacyTypes r \<noteq> Some [] \<and> privacyPolicyUrl r \<noteq> Some [] \<and>
    (\<forall>body d.
       doRequest (AppPageUrl (case pv_country options of None \<Rightarrow> ''us'' | Some c \<Rightarrow> c)
                    (the (pv_id options)), pv_requestOptions options) = Inr body \<longrightarrow>
       load body = Inr d \<longrightarrow>
       ((\<forall>el \<in> set (query d ''dialog[data-testid="dialog"] a[data-test-id="external-link"]'').
            \<not> (truthy_str (attr_of d el ''aria-label'') \<and>
               includes_str (the (attr_of d el ''aria-label'')) ''Privacy Policy''))
          \<longrightarrow> privacyPolicyUrl r = None) \<and>
       (each_section d (query d ''dialog[data-testid="dialog"] section.purpose-section'') [] = []
          \<longrightarrow> privacyTypes r = None))\<close>
  using assms
  by (auto simp: privacy_def Let_def each_link_none split: if_splits sum.splits)

theorem privacy_omits_empty_fields_witness:
  "snd (privacy online (\<lambda>h. Inr blank_page)
          \<lparr>pv_id = Some 553834731, pv_country = None, pv_requestOptions = None\<rparr>)
     = Inr \<lparr>privacyPolicyUrl = None, privacyTypes = None\<rparr> \<and>
   privacyTypes \<lparr>privacyPolicyUrl = None, privacyTypes = None\<rparr> \<noteq> Some [] \<and>
   privacyPolicyUrl \<lparr>privacyPolicyUrl = None, privacyTypes = None\<rparr> \<noteq> Some []"
proof -
  have h: "snd (privacy online (\<lambda>h. Inr blank_page)
          \<lparr>pv_id = Some 553834731, pv_country = None, pv_requestOptions = None\<rparr>)
     = Inr \<lparr>privacyPolicyUrl = None, privacyTypes = None\<rparr>"
    by (simp add: privacy_def online_def blank_page_def Let_def)
  from privacy_omits_empty_fields [OF h] h show ?thesis by blast
qed

text \<open>
  C7, as stated, fails on a category item that lists a data type and has no title: the
  section has a category item with a data-type child, and no record is emitted.
\<close>

theorem untitled_category_emits_nothing:
  \<open>find_in untitled_category_page 0 ''li.purpose-category'' = [1] \<and>
   find_in untitled_category_page 1 ''.privacy-data-types li'' = [2] \<and>
   snd (privacy online (\<lambda>h. Inr untitled_category_page)
          \<lparr>pv_id = Some 553834731, pv_country = None, pv_requestOptions = None\<rparr>)
     = Inr \<lparr>privacyPolicyUrl = None, privacyTypes = None\<rparr>\<close>
  by code_simp

lemma section_records_none:
  assumes "\<forall>c \<in> set (find_in d sec ''li.purpose-category'').
             find_in d c ''.privacy-data-types li'' = []"
  shows "section_records d [sec] = []"
proof -
  have "filter (emits d) (find_in d sec ''li.purpose-category'') = []"
    using assms by (simp add: emits_def filter_empty_conv)
  then show ?thesis by (simp add: section_records_def)
qed

text \<open>
  C7, amended. For each purpose section and each category item within it that has a
  title that is not empty after trimming and at least one data-type child, exactly one
  privacy-type record is emitted, carrying the section's purpose, in document order; the
  other category items emit nothing, and a section whose category items have no data-type
  children contributes no record and raises no error.
\<close>

theorem privacy_types_per_category:
  assumes "truthy_num (pv_id options)"
    and "doRequest (AppPageUrl (case pv_country options of None \<Rightarrow> ''us'' | Some c \<Rightarrow> c)
                      (the (pv_id options)), pv_requestOptions options) = Inr body"
    and "load body = Inr d"
  shows \<open>\<exists>r. snd (privacy doRequest load options) = Inr r \<and>
     privacyTypes r =
       (if section_records d (query d ''dialog[data-testid="dialog"] section.purpose-section'') = []
        then None
        else Some (section_records d
                     (query d ''dialog[data-testid="dialog"] section.purpose-section''))) \<and>
     (\<forall>sec. (\<forall>c \<in> set (find_in d sec ''li.purpose-category'').
                find_in d c ''.privacy-data-types li'' = [])
            \<longrightarrow> section_records d [sec] = [])\<close>
  using assms
  by (simp add: privacy_def Let_def each_section_records section_records_none)

theorem privacy_types_per_category_witness:
  \<open>truthy_num (Some 553834731) \<and>
   section_records store_page [11, 12] =
     [\<lparr>privacyType = ''Location'', pt_name = ''Location'', description = ''Used for Analytics'',
       dataCategories = [''Precise Location'', ''Coarse Location''],
       purposes = [''Analytics'']\<rparr>] \<and>
   (\<exists>r. snd (privacy online (\<lambda>h. Inr store_page)
               \<lparr>pv_id = Some 553834731, pv_country = None, pv_requestOptions = None\<rparr>) = Inr r \<and>
        privacyTypes r =
          Some [\<lparr>privacyType = ''Location'', pt_name = ''Location'',
                 description = ''Used for Analytics'',
                 dataCategories = [''Precise Location'', ''Coarse Location''],
                 purposes = [''Analytics'']\<rparr>])\<close>
proof -
  let ?opts = "\<lparr>pv_id = Some 553834731, pv_country = None, pv_requestOptions = None\<rparr>"
  have t: "truthy_num (pv_id ?opts)" by simp
  have q: \<open>query store_page ''dialog[data-testid="dialog"] section.purpose-section'' = [11, 12]\<close>
    by code_simp
  have rec: "section_records store_page [11, 12] =
     [\<lparr>privacyType = ''Location'', pt_name = ''Location'', description = ''Used for Analytics'',
       dataCategories = [''Precise Location'', ''Coarse Location''],
       purposes = [''Analytics'']\<rparr>]"
    by code_simp
  have req: "online (AppPageUrl (case pv_country ?opts of None \<Rightarrow> ''us'' | Some c \<Rightarrow> c)
                      (the (pv_id ?opts)), pv_requestOptions ?opts) = Inr ''<html>''"
    by (simp add: online_def)
  have ld: "(\<lambda>h. Inr store_page :: error + nat dom) ''<html>'' = Inr store_page" by simp
  from privacy_types_per_category
         [where doRequest = online and load = "\<lambda>h. Inr store_page" and options = ?opts,
          OF t req ld] rec
  show ?thesis
    by (auto simp: q)
qed

section \<open>Properties of versionHistory\<close>

text \<open>
  C9. \<open>versionHistory\<close> returns one entry per article block, in document order. An entry
  has the trimmed version label, the value of the \<open>datetime\<close> attribute as release date,
  or the empty string when the attribute is absent, and the trimmed release notes, which
  are omitted, never an empty string, when the article has no notes node.
\<close>

theorem versionHistory_entries:
  assumes "truthy_num (vh_id options)"
    and "doRequest (AppPageUrl (case vh_country options of None \<Rightarrow> ''us'' | Some c \<Rightarrow> c)
                      (the (vh_id options)), vh_requestOptions options) = Inr body"
    and "load body = Inr d"
  shows \<open>snd (versionHistory doRequest load options)
           = Inr (map (article_entry d)
                    (query d ''dialog[data-testid="dialog"] article.svelte-13339ih'')) \<and>
         (\<forall>a. versionDisplay (article_entry d a)
                = trim (sel_text d (find_in d a ''h4.svelte-13339ih'')) \<and>
              (sel_attr d (find_in d a ''time'') ''datetime'' = None
                 \<longrightarrow> releaseDate (article_entry d a) = []) \<and>
              (\<forall>v. sel_attr d (find_in d a ''time'') ''datetime'' = Some v
                 \<longrightarrow> releaseDate (article_entry d a) = v) \<and>
              (find_in d a ''p.svelte-13339ih'' = []
                 \<longrightarrow> releaseNotes (article_entry d a) = None) \<and>
              releaseNotes (article_entry d a) \<noteq> Some [] \<and>
              (\<forall>n. releaseNotes (article_entry d a) = Some n
                 \<longrightarrow> n = trim (sel_text d (find_in d a ''p.svelte-13339ih''))))\<close>
proof
  show \<open>snd (versionHistory doRequest load options)
           = Inr (map (article_entry d)
                    (query d ''dialog[data-testid="dialog"] article.svelte-13339ih''))\<close>
    using assms by (simp add: versionHistory_def Let_def each_article_map)
next
  show \<open>\<forall>a. versionDisplay (article_entry d a)
                = trim (sel_text d (find_in d a ''h4.svelte-13339ih'')) \<and>
              (sel_attr d (find_in d a ''time'') ''datetime'' = None
                 \<longrightarrow> releaseDate (article_entry d a) = []) \<and>
              (\<forall>v. sel_attr d (find_in d a ''time'') ''datetime'' = Some v
                 \<longrightarrow> releaseDate (article_entry d a) = v) \<and>
              (find_in d a ''p.svelte-13339ih'' = []
                 \<longrightarrow> releaseNotes (article_entry d a) = None) \<and>
              releaseNotes (article_entry d a) \<noteq> Some [] \<and>
              (\<forall>n. releaseNotes (article_entry d a) = Some n
                 \<longrightarrow> n = trim (sel_text d (find_in d a ''p.svelte-13339ih'')))\<close>
    by (simp add: article_entry_def trim_Nil sel_text_Nil)
qed

theorem versionHistory_entries_witness:
  "snd (versionHistory online (\<lambda>h. Inr store_page)
          \<lparr>vh_id = Some 553834731, vh_country = None, vh_requestOptions = None\<rparr>)
     = Inr [\<lparr>versionDisplay = ''2.1'', releaseDate = ''2024-05-01'',
              releaseNotes = Some ''Bug fixes.''\<rparr>,
            \<lparr>versionDisplay = ''2.0'', releaseDate = [], releaseNotes = None\<rparr>]"
proof -
  let ?opts = "\<lparr>vh_id = Some 553834731, vh_country = None, vh_requestOptions = None\<rparr>"
  have t: "truthy_num (vh_id ?opts)" by simp
  have req: "online (AppPageUrl (case vh_country ?opts of None \<Rightarrow> ''us'' | Some c \<Rightarrow> c)
                      (the (vh_id ?opts)), vh_requestOptions ?opts) = Inr ''<html>''"
    by (simp add: online_def)
  have ld: "(\<lambda>h. Inr store_page :: error + nat dom) ''<html>'' = Inr store_page" by simp
  have q: \<open>map (article_entry store_page)
             (query store_page ''dialog[data-testid="dialog"] article.svelte-13339ih'')
     = [\<lparr>versionDisplay = ''2.1'', releaseDate = ''2024-05-01'',
              releaseNotes = Some ''Bug fixes.''\<rparr>,
            \<lparr>versionDisplay = ''2.0'', releaseDate = [], releaseNotes = None\<rparr>]\<close>
    by code_simp
  from versionHistory_entries
         [where doRequest = online and load = "\<lambda>h. Inr store_page" and options = ?opts,
          OF t req ld]
  show ?thesis by (simp add: q)
qed

section \<open>Properties of suggest\<close>

lemma dict_terms_nonempty: "[] \<notin> set (dict_terms dicts)"
  by (simp add: dict_terms_def)

text \<open>
  C8. In \<open>suggest\<close> a scalar \<open>string\<close> field counts as a sequence of one element, the
  term of a suggestion is the first string value of its dict entry, and a validated
  response whose \<open>array\<close> is a bare string, or has no \<open>dict\<close> child, gives the empty
  list and no error. The response \<open>{array: {dict: [{string: ["minecraft"]}]}}\<close> gives
  \<open>[{term: "minecraft"}]\<close>.
\<close>

theorem suggest_terms:
  assumes "truthy_str (sg_term options)"
    and "doRequest (HintsUrl (the (sg_term options)), sg_requestOptions options) = Inr body"
    and "parse body = Inr x"
    and "safeParse x = Inr result"
  shows "snd (suggest doRequest parse safeParse options) =
           Inr (case array_of result of
                  Some (ArrayObject (Some dicts)) \<Rightarrow> map Suggestion (dict_terms dicts)
                | _ \<Rightarrow> []) \<and>
         (\<forall>s rest acc. for_dicts (Scalar s # rest) acc = for_dicts (Sequence [s] # rest) acc)"
proof
  show "snd (suggest doRequest parse safeParse options) =
           Inr (case array_of result of
                  Some (ArrayObject (Some dicts)) \<Rightarrow> map Suggestion (dict_terms dicts)
                | _ \<Rightarrow> [])"
    using assms
    by (simp add: suggest_def Let_def for_dicts_terms split: option.splits array_data.splits)
next
  show "\<forall>s rest acc. for_dicts (Scalar s # rest) acc = for_dicts (Sequence [s] # rest) acc"
    by simp
qed

theorem suggest_terms_witness:
  "snd (suggest online (\<lambda>body. Inr body)
          (\<lambda>x. Inr \<lparr>plist = Some \<lparr>pl_dict = Some
                  \<lparr>pl_array = Some (ArrayObject (Some [Sequence [''minecraft'']]))\<rparr>\<rparr>\<rparr>)
          \<lparr>sg_term = Some ''min'', sg_requestOptions = None\<rparr>)
     = Inr [Suggestion ''minecraft''] \<and>
   snd (suggest online (\<lambda>body. Inr body)
          (\<lambda>x. Inr \<lparr>plist = Some \<lparr>pl_dict = Some \<lparr>pl_array = Some (ArrayString ''none'')\<rparr>\<rparr>\<rparr>)
          \<lparr>sg_term = Some ''min'', sg_requestOptions = None\<rparr>)
     = Inr [] \<and>
   snd (suggest online (\<lambda>body. Inr body)
          (\<lambda>x. Inr \<lparr>plist = Some \<lparr>pl_dict = Some
                  \<lparr>pl_array = Some (ArrayObject (Some [Scalar ''minecraft'', Scalar ''mini'']))\<rparr>\<rparr>\<rparr>)
          \<lparr>sg_term = Some ''min'', sg_requestOptions = None\<rparr>)
     = Inr [Suggestion ''minecraft'', Suggestion ''mini'']"
proof -
  let ?opts = "\<lparr>sg_term = Some ''min'', sg_requestOptions = None\<rparr>"
  have t: "truthy_str (sg_term ?opts)" by simp
  have req: "online (HintsUrl (the (sg_term ?opts)), sg_requestOptions ?opts) = Inr ''<html>''"
    by (simp add: online_def)
  have p: "(\<lambda>body. Inr body :: error + string) ''<html>'' = Inr ''<html>''" by simp
  note inst = suggest_terms [where doRequest = online and parse = "\<lambda>body. Inr body"
      and options = ?opts, OF t req p]
  have 1: "snd (suggest online (\<lambda>body. Inr body)
          (\<lambda>x. Inr \<lparr>plist = Some \<lparr>pl_dict = Some
                  \<lparr>pl_array = Some (ArrayObject (Some [Sequence [''minecraft'']]))\<rparr>\<rparr>\<rparr>) ?opts)
     = Inr [Suggestion ''minecraft'']"
    using inst [where safeParse = "\<lambda>x. Inr \<lparr>plist = Some \<lparr>pl_dict = Some
                  \<lparr>pl_array = Some (ArrayObject (Some [Sequence [''minecraft'']]))\<rparr>\<rparr>\<rparr>"]
    by (simp add: array_of_def dict_terms_def List.map_filter_simps)
  have 2: "snd (suggest online (\<lambda>body. Inr body)
          (\<lambda>x. Inr \<lparr>plist = Some \<lparr>pl_dict = Some \<lparr>pl_array = Some (ArrayString ''none'')\<rparr>\<rparr>\<rparr>) ?opts)
     = Inr []"
    using inst [where safeParse = "\<lambda>x. Inr \<lparr>plist = Some \<lparr>pl_dict = Some
                  \<lparr>pl_array = Some (ArrayString ''none'')\<rparr>\<rparr>\<rparr>"]
    by (simp add: array_of_def)
  have 3: "snd (suggest online (\<lambda>body. Inr body)
          (\<lambda>x. Inr \<lparr>plist = Some \<lparr>pl_dict = Some
                  \<lparr>pl_array = Some (ArrayObject (Some [Scalar ''minecraft'', Scalar ''mini'']))\<rparr>\<rparr>\<rparr>) ?opts)
     = Inr [Suggestion ''minecraft'', Suggestion ''mini'']"
    using inst [where safeParse = "\<lambda>x. Inr \<lparr>plist = Some \<lparr>pl_dict = Some
                  \<lparr>pl_array = Some (ArrayObject (Some [Scalar ''minecraft'', Scalar ''mini'']))\<rparr>\<rparr>\<rparr>"]
    by (simp add: array_of_def dict_terms_def List.map_filter_simps)
  from 1 2 3 show ?thesis by simp
qed

text \<open>
  C10. Every suggestion that \<open>suggest\<close> returns has a term that is not empty: a dict
  entry whose first string value is missing or empty is skipped by the loop, which adds
  no placeholder and raises no error.
\<close>

theorem every_suggestion_has_term:
  assumes "snd (suggest doRequest parse safeParse options) = Inr suggestions"
  shows "(\<forall>s \<in> set suggestions. term_of s \<noteq> []) \<and>
         (\<forall>dict rest acc. \<not> truthy_str (first_string dict) \<longrightarrow>
             for_dicts (dict # rest) acc = for_dicts rest acc)"
proof
  have "suggestions = [] \<or> (\<exists>dicts. suggestions = map Suggestion (dict_terms dicts))"
    using assms
    by (auto simp: suggest_def Let_def for_dicts_terms
        split: if_splits sum.splits option.splits array_data.splits)
  then show "\<forall>s \<in> set suggestions. term_of s \<noteq> []"
    using dict_terms_nonempty by fastforce
next
  show "\<forall>dict rest acc. \<not> truthy_str (first_string dict) \<longrightarrow>
             for_dicts (dict # rest) acc = for_dicts rest acc"
  proof (intro allI impI)
    fix dict rest acc
    assume "\<not> truthy_str (first_string dict)"
    then show "for_dicts (dict # rest) acc = for_dicts rest acc"
      by (cases dict rule: first_string.cases) simp_all
  qed
qed

theorem every_suggestion_has_term_witness:
  "snd (suggest online (\<lambda>body. Inr body)
          (\<lambda>x. Inr \<lparr>plist = Some \<lparr>pl_dict = Some
                  \<lparr>pl_array = Some (ArrayObject (Some
                     [Sequence [''minecraft'', ''x''], Scalar [], NoString, Sequence [],
                      Scalar ''mini metro'']))\<rparr>\<rparr>\<rparr>)
          \<lparr>sg_term = Some ''min'', sg_requestOptions = None\<rparr>)
     = Inr [Suggestion ''minecraft'', Suggestion ''mini metro''] \<and>
   list_all (\<lambda>s. term_of s \<noteq> []) [Suggestion ''minecraft'', Suggestion ''mini metro''] \<and>
   for_dicts [Scalar [], Scalar ''mini metro''] [] = for_dicts [Scalar ''mini metro''] []"
proof -
  have h: "snd (suggest online (\<lambda>body. Inr body)
          (\<lambda>x. Inr \<lparr>plist = Some \<lparr>pl_dict = Some
                  \<lparr>pl_array = Some (ArrayObject (Some
                     [Sequence [''minecraft'', ''x''], Scalar [], NoString, Sequence [],
                      Scalar ''mini metro'']))\<rparr>\<rparr>\<rparr>)
          \<lparr>sg_term = Some ''min'', sg_requestOptions = None\<rparr>)
     = Inr [Suggestion ''minecraft'', Suggestion ''mini metro'']"
    by (simp add: suggest_def online_def array_of_def)
  have e: "\<not> truthy_str (first_string (Scalar []))" by simp
  from every_suggestion_has_term [OF h] h e show ?thesis
    by (simp add: list_all_iff)
qed

end
